theory Spec2Isabelle
  imports Main
begin

section \<open>Data model\<close>

text \<open>
  A shallow embedding of \<^verbatim>\<open>packages/repack/src/webpack/plugins/OutputPlugin.ts\<close>.

  Chunks are bundler objects compared by reference (\<^verbatim>\<open>===\<close>, \<^verbatim>\<open>Set.has\<close>,
  \<^verbatim>\<open>Array.includes\<close>), so a chunk is a reference into a heap of chunk objects. A
  JavaScript \<^verbatim>\<open>Set\<close> is a list in insertion order; \<^verbatim>\<open>undefined\<close> is \<open>None\<close>.
\<close>

type_synonym chunk = nat

datatype chunk_id = IdNum nat | IdStr string

record chunk_obj =
  chunk_name :: "string option"
  chunk_id :: "chunk_id option"
  chunk_files :: "string list"
  allInitialChunks :: "chunk list"

record chunk_group =
  isInitial :: bool
  group_chunks :: "chunk list"

record compilation =
  chunks :: "chunk list"
  chunkGroups :: "chunk_group list"
  heap :: "chunk \<Rightarrow> chunk_obj"
  assets :: "string \<rightharpoonup> string"
  outputPath :: "string option"

datatype error = Error string | TypeError

text \<open>
  A rule of the \<^verbatim>\<open>localChunks\<close> option is a test on the chunk identity, which is a
  string or \<^verbatim>\<open>undefined\<close>; the option holds one rule or an array of rules
  (\<^verbatim>\<open>Rule | Rule[]\<close>).
\<close>

type_synonym rule = "string option \<Rightarrow> bool"

datatype rules = Single rule | Many "rule list"

record OutputPluginConfig =
  platform :: "string option"
  devServerEnabled :: "bool option"
  localChunks :: "rules option"
  remoteChunksOutput :: "string option"
  entry :: "string option"

record BundleArguments =
  bundleOutput :: string
  assetsDest :: "string option"
  sourcemapOutput :: "string option"

record CliArguments =
  args_has_start :: bool
  args_bundle :: "BundleArguments option"

record CliOptions =
  config_root :: string
  arguments :: CliArguments

text \<open>The functions of Node's \<^verbatim>\<open>path\<close> module that \<^verbatim>\<open>apply\<close> calls, as parameters.\<close>

record path_ops =
  isAbsolute :: "string \<Rightarrow> bool"
  join :: "string \<Rightarrow> string \<Rightarrow> string"
  dirname :: "string \<Rightarrow> string"

text \<open>
  The values that the two hook callbacks capture from \<^verbatim>\<open>apply\<close> and never assign
  again, and the captured variables that the callbacks do assign
  (\<^verbatim>\<open>entryGroup\<close>, \<^verbatim>\<open>entryChunk\<close>, \<^verbatim>\<open>localChunks\<close>, \<^verbatim>\<open>remoteChunks\<close>).
\<close>

record hook_env =
  env_platform :: "string option"
  env_bundleOutput :: string
  env_bundleOutputDir :: string
  env_sourcemapOutput :: string
  env_assetsDest :: string
  env_remoteChunksOutput :: "string option"
  env_localChunks :: "rules option"
  env_entryChunkName :: string

record plugin_state =
  st_entryGroup :: "chunk_group option"
  st_entryChunk :: "chunk option"
  st_localChunks :: "chunk list"
  st_remoteChunks :: "chunk list"

record compiler =
  compilation_taps :: "(string \<times> hook_env) list"
  afterEmit_taps :: "(string \<times> hook_env) list"

section \<open>Construction\<close>

text \<open>JavaScript truthiness of an optional string and of an optional boolean.\<close>

definition truthy_str :: "string option \<Rightarrow> bool" where
  "truthy_str s = (case s of None \<Rightarrow> False | Some v \<Rightarrow> v \<noteq> [])"

definition truthy_bool :: "bool option \<Rightarrow> bool" where
  "truthy_bool b = (case b of None \<Rightarrow> False | Some v \<Rightarrow> v)"

definition constructor :: "OutputPluginConfig \<Rightarrow> error + OutputPluginConfig" where
  "constructor config =
     (if \<not> truthy_str (platform config)
      then Inl (Error ''Missing `platform` option in `OutputPlugin`'')
      else Inr config)"

section \<open>Applying the plugin\<close>

definition fresh_state :: plugin_state where
  "fresh_state =
     \<lparr>st_entryGroup = None, st_entryChunk = None, st_localChunks = [], st_remoteChunks = []\<rparr>"

text \<open>
  The part of \<^verbatim>\<open>apply\<close> between the guard and the taps: the output paths, resolved
  against the project root, and the options that the callbacks read. The debug log line
  is left out.
\<close>

definition captured ::
  "path_ops \<Rightarrow> OutputPluginConfig \<Rightarrow> CliOptions \<Rightarrow> BundleArguments \<Rightarrow> hook_env" where
  "captured P config cli args =
     (let bundleOutput0 = bundleOutput args;
          assetsDest0 = (case assetsDest args of None \<Rightarrow> [] | Some d \<Rightarrow> d);
          sourcemapOutput0 = (case sourcemapOutput args of None \<Rightarrow> [] | Some m \<Rightarrow> m);
          bundleOutput1 =
            (if \<not> isAbsolute P bundleOutput0
             then join P (config_root cli) bundleOutput0 else bundleOutput0);
          bundleOutputDir = dirname P bundleOutput1;
          sourcemapOutput1 =
            (if sourcemapOutput0 = [] then bundleOutput1 @ ''.map'' else sourcemapOutput0);
          sourcemapOutput2 =
            (if \<not> isAbsolute P sourcemapOutput1
             then join P (config_root cli) sourcemapOutput1 else sourcemapOutput1);
          assetsDest1 = (if assetsDest0 = [] then bundleOutputDir else assetsDest0);
          remoteChunksOutput1 =
            (case remoteChunksOutput config of
               None \<Rightarrow> None
             | Some r \<Rightarrow>
                 if r \<noteq> [] \<and> \<not> isAbsolute P r
                 then Some (join P (config_root cli) r) else Some r)
      in \<lparr>env_platform = platform config,
          env_bundleOutput = bundleOutput1,
          env_bundleOutputDir = bundleOutputDir,
          env_sourcemapOutput = sourcemapOutput2,
          env_assetsDest = assetsDest1,
          env_remoteChunksOutput = remoteChunksOutput1,
          env_localChunks = localChunks config,
          env_entryChunkName = (case entry config of None \<Rightarrow> ''main'' | Some e \<Rightarrow> e)\<rparr>)"

text \<open>
  \<^verbatim>\<open>apply(compiler)\<close>. The argument \<open>cliOptions\<close> is the value parsed from the
  environment variable, \<open>None\<close> when the variable is unset or holds \<^verbatim>\<open>null\<close>.
  Destructuring an absent \<^verbatim>\<open>arguments.bundle\<close> is a \<^verbatim>\<open>TypeError\<close>. Both hooks
  are tapped under the name \<^verbatim>\<open>OutputPlugin\<close>.
\<close>

definition apply_plugin ::
  "path_ops \<Rightarrow> OutputPluginConfig \<Rightarrow> CliOptions option \<Rightarrow> compiler \<Rightarrow> error + compiler" where
  "apply_plugin P config cliOptions compiler =
     (case cliOptions of
        None \<Rightarrow> Inr compiler
      | Some cli \<Rightarrow>
          if args_has_start (arguments cli) \<or> truthy_bool (devServerEnabled config)
          then Inr compiler
          else
            (case args_bundle (arguments cli) of
               None \<Rightarrow> Inl TypeError
             | Some args \<Rightarrow>
                 Inr (compiler
                   \<lparr>compilation_taps :=
                      compilation_taps compiler @ [(''OutputPlugin'', captured P config cli args)],
                    afterEmit_taps :=
                      afterEmit_taps compiler @ [(''OutputPlugin'', captured P config cli args)]\<rparr>)))"

section \<open>Chunk identity and the local-chunk matcher\<close>

fun string_of_nat :: "nat \<Rightarrow> string" where
  "string_of_nat n =
     (if n < 10 then [char_of (48 + n)]
      else string_of_nat (n div 10) @ [char_of (48 + n mod 10)])"

declare string_of_nat.simps [simp del]

text \<open>\<^verbatim>\<open>id.toString()\<close> for the identifiers the bundler assigns: a string, or a
  non-negative integer, printed in decimal.\<close>

fun toString :: "chunk_id \<Rightarrow> string" where
  "toString (IdStr s) = s"
| "toString (IdNum n) = string_of_nat n"

text \<open>\<^verbatim>\<open>chunk.name ?? chunk.id?.toString()\<close>\<close>

definition chunkIdentity :: "compilation \<Rightarrow> chunk \<Rightarrow> string option" where
  "chunkIdentity compilation c =
     (case chunk_name (heap compilation c) of
        Some n \<Rightarrow> Some n
      | None \<Rightarrow> map_option toString (chunk_id (heap compilation c)))"

text \<open>
  Modelled from the spec: \<^verbatim>\<open>ModuleFilenameHelpers.matchObject\<close> is the bundler's and is
  not part of the sources. An identity matches when it satisfies the \<^verbatim>\<open>include\<close> rule
  set, which is a single rule or a list of rules; a list is satisfied by an identity that
  passes one of its rules.
\<close>

fun matchPart :: "string option \<Rightarrow> rules \<Rightarrow> bool" where
  "matchPart str (Single r) = r str"
| "matchPart str (Many rs) = list_ex (\<lambda>r. r str) rs"

definition matchObject :: "rules \<Rightarrow> string option \<Rightarrow> bool" where
  "matchObject include str = matchPart str include"

text \<open>\<^verbatim>\<open>isLocalChunk\<close>: the include list is \<^verbatim>\<open>this.config.localChunks ?? []\<close>.\<close>

definition isLocalChunk :: "hook_env \<Rightarrow> string option \<Rightarrow> bool" where
  "isLocalChunk env chunkId =
     matchObject (case env_localChunks env of None \<Rightarrow> Many [] | Some r \<Rightarrow> r) chunkId"

section \<open>Classification\<close>

text \<open>\<^verbatim>\<open>Set.add\<close> on a set kept in insertion order.\<close>

definition set_add :: "'a \<Rightarrow> 'a list \<Rightarrow> 'a list" where
  "set_add x s = (if x \<in> set s then s else s @ [x])"

text \<open>
  The entry lookup: the first chunk group that is initial, and in it the first chunk
  whose name is the entry name.
\<close>

definition findEntryGroup :: "compilation \<Rightarrow> chunk_group option" where
  "findEntryGroup compilation = find isInitial (chunkGroups compilation)"

definition findEntryChunk :: "hook_env \<Rightarrow> compilation \<Rightarrow> chunk option" where
  "findEntryChunk env compilation =
     (case findEntryGroup compilation of
        None \<Rightarrow> None
      | Some g \<Rightarrow>
          find (\<lambda>c. chunk_name (heap compilation c) = Some (env_entryChunkName env)) (group_chunks g))"

text \<open>
  The first loop, over \<^verbatim>\<open>compilation.chunks\<close>; the accumulator is
  (\<^verbatim>\<open>sharedChunks\<close>, \<^verbatim>\<open>localChunks\<close>, \<^verbatim>\<open>remoteChunks\<close>).
\<close>

fun classifyChunks ::
  "hook_env \<Rightarrow> compilation \<Rightarrow> chunk option \<Rightarrow> chunk list \<Rightarrow>
   chunk list \<times> chunk list \<times> chunk list \<Rightarrow> chunk list \<times> chunk list \<times> chunk list" where
  "classifyChunks env compilation entryChunk [] acc = acc"
| "classifyChunks env compilation entryChunk (c # cs) (sharedChunks, localCs, remoteCs) =
     (if c \<in> set sharedChunks
      then classifyChunks env compilation entryChunk cs (sharedChunks, localCs, remoteCs)
      else
        let sharedChunks' =
              fold set_add (filter (\<lambda>s. s \<noteq> c) (allInitialChunks (heap compilation c))) sharedChunks
        in if entryChunk = Some c
           then classifyChunks env compilation entryChunk cs (sharedChunks', localCs @ [c], remoteCs)
           else if isLocalChunk env (chunkIdentity compilation c)
           then classifyChunks env compilation entryChunk cs (sharedChunks', localCs @ [c], remoteCs)
           else classifyChunks env compilation entryChunk cs (sharedChunks', localCs, remoteCs @ [c]))"

text \<open>The second loop, over \<^verbatim>\<open>sharedChunks\<close>; it reads the local list as it grows.\<close>

fun resolveShared ::
  "hook_env \<Rightarrow> compilation \<Rightarrow> chunk list \<Rightarrow> chunk list \<times> chunk list \<Rightarrow>
   chunk list \<times> chunk list" where
  "resolveShared env compilation [] acc = acc"
| "resolveShared env compilation (s # ss) (localCs, remoteCs) =
     (let isUsedByLocalChunk =
            list_ex (\<lambda>localChunk. s \<in> set (allInitialChunks (heap compilation localChunk))) localCs
      in if isUsedByLocalChunk \<or> isLocalChunk env (chunkIdentity compilation s)
         then resolveShared env compilation ss (localCs @ [s], remoteCs)
         else resolveShared env compilation ss (localCs, remoteCs @ [s]))"

text \<open>Both loops, started from the lists the plugin holds.\<close>

definition classify ::
  "hook_env \<Rightarrow> compilation \<Rightarrow> chunk option \<Rightarrow> chunk list \<times> chunk list \<Rightarrow>
   chunk list \<times> chunk list" where
  "classify env compilation entryChunk acc =
     (case classifyChunks env compilation entryChunk (chunks compilation) ([], fst acc, snd acc) of
        (sharedChunks, localCs, remoteCs) \<Rightarrow>
          resolveShared env compilation sharedChunks (localCs, remoteCs))"

section \<open>Manifest injection\<close>

text \<open>
  \<^verbatim>\<open>JSON.stringify\<close> on a string: the two-character escapes, \<^verbatim>\<open>\u00XX\<close> for the
  other control characters, every other character as it is.
\<close>

definition hexdigit :: "nat \<Rightarrow> char" where
  "hexdigit d = (if d < 10 then char_of (48 + d) else char_of (87 + d))"

definition json_escape :: "char \<Rightarrow> string" where
  "json_escape c =
     (if c = CHR 0x22 then [CHR 0x5C, CHR 0x22]
      else if c = CHR 0x5C then [CHR 0x5C, CHR 0x5C]
      else if c = CHR 0x08 then [CHR 0x5C, CHR ''b'']
      else if c = CHR 0x0C then [CHR 0x5C, CHR ''f'']
      else if c = CHR 0x0A then [CHR 0x5C, CHR ''n'']
      else if c = CHR 0x0D then [CHR 0x5C, CHR ''r'']
      else if c = CHR 0x09 then [CHR 0x5C, CHR ''t'']
      else if (of_char c :: nat) < 32
      then [CHR 0x5C, CHR ''u'', CHR ''0'', CHR ''0'',
            hexdigit (of_char c div 16), hexdigit (of_char c mod 16)]
      else [c])"

definition json_string :: "string \<Rightarrow> string" where
  "json_string s = [CHR 0x22] @ concat (map json_escape s) @ [CHR 0x22]"

text \<open>An array element: \<^verbatim>\<open>undefined\<close> is written \<^verbatim>\<open>null\<close>.\<close>

definition json_element :: "string option \<Rightarrow> string" where
  "json_element x = (case x of None \<Rightarrow> ''null'' | Some s \<Rightarrow> json_string s)"

fun commas :: "string list \<Rightarrow> string" where
  "commas [] = []"
| "commas [x] = x"
| "commas (x # y # ys) = x @ '','' @ commas (y # ys)"

text \<open>\<^verbatim>\<open>JSON.stringify({ local: names })\<close>\<close>

definition json_local :: "string option list \<Rightarrow> string" where
  "json_local names =
     [CHR ''{'', CHR 0x22] @ ''local'' @ [CHR 0x22] @ '':['' @
     commas (map json_element names) @ '']}''"

text \<open>The text that is put in front of the entry bundle, without the line break.\<close>

definition chunksDeclaration :: "compilation \<Rightarrow> chunk list \<Rightarrow> string" where
  "chunksDeclaration compilation localCs =
     ''var __CHUNKS__='' @ json_local (map (chunkIdentity compilation) localCs) @ '';''"

text \<open>
  Modelled from the spec: \<^verbatim>\<open>Compilation.updateAsset\<close> is the bundler's and is not part
  of the sources. It replaces the content of one named asset in the asset store by the
  function's result on the old content, and fails fatally when there is no such asset,
  which is the case when the entry chunk has no files at all.
\<close>

definition updateAsset ::
  "compilation \<Rightarrow> string option \<Rightarrow> (string \<Rightarrow> string) \<Rightarrow> error + compilation" where
  "updateAsset compilation file f =
     (case file of
        None \<Rightarrow> Inl (Error ''Called Compilation.updateAsset for not existing filename undefined'')
      | Some n \<Rightarrow>
          (case assets compilation n of
             None \<Rightarrow>
               Inl (Error (''Called Compilation.updateAsset for not existing filename '' @ n))
           | Some source \<Rightarrow>
               Inr (compilation\<lparr>assets := (assets compilation)(n \<mapsto> f source)\<rparr>)))"

text \<open>\<^verbatim>\<open>[...entryChunk.files][0]\<close>\<close>

definition firstFile :: "compilation \<Rightarrow> chunk \<Rightarrow> string option" where
  "firstFile compilation c =
     (case chunk_files (heap compilation c) of [] \<Rightarrow> None | f # _ \<Rightarrow> Some f)"

section \<open>The two hooks\<close>

text \<open>
  The \<^verbatim>\<open>processAssets\<close> callback. It returns the outcome together with the plugin's
  variables and the compilation as they are when it returns or throws.
\<close>

definition processAssets ::
  "hook_env \<Rightarrow> plugin_state \<Rightarrow> compilation \<Rightarrow> (error + unit) \<times> plugin_state \<times> compilation" where
  "processAssets env st compilation =
     (let entryGroup = findEntryGroup compilation;
          entryChunk = findEntryChunk env compilation;
          (localCs, remoteCs) =
             classify env compilation entryChunk (st_localChunks st, st_remoteChunks st);
          st' = \<lparr>st_entryGroup = entryGroup, st_entryChunk = entryChunk,
                 st_localChunks = localCs, st_remoteChunks = remoteCs\<rparr>
      in case entryChunk of
           None \<Rightarrow>
             (Inl (Error ''Cannot infer entry chunk - this should have not happened.''),
              st', compilation)
         | Some e \<Rightarrow>
             (case updateAsset compilation (firstFile compilation e)
                     (\<lambda>source. chunksDeclaration compilation localCs @ [CHR 0x0A] @ source) of
                Inl err \<Rightarrow> (Inl err, st', compilation)
              | Inr compilation' \<Rightarrow> (Inr (), st', compilation')))"

text \<open>
  Modelled from the spec: \<^verbatim>\<open>AssetsCopyProcessor\<close> (\<^verbatim>\<open>utils/AssetsCopyProcessor\<close>) is
  not part of the sources. It is the distribution collaborator: it is created with its
  destinations, each chunk is enqueued with a flag that marks the entry chunk, and
  \<^verbatim>\<open>execute\<close> then copies what was enqueued. Only the queue is modelled.
\<close>

record processor_config =
  pc_platform :: "string option"
  pc_outputPath :: string
  pc_bundleOutput :: string
  pc_bundleOutputDir :: string
  pc_sourcemapOutput :: string
  pc_assetsDest :: string

record AssetsCopyProcessor =
  proc_config :: processor_config
  queue :: "(chunk \<times> bool) list"

definition new_AssetsCopyProcessor :: "processor_config \<Rightarrow> AssetsCopyProcessor" where
  "new_AssetsCopyProcessor c = \<lparr>proc_config = c, queue = []\<rparr>"

definition enqueueChunk :: "chunk \<Rightarrow> bool \<Rightarrow> AssetsCopyProcessor \<Rightarrow> AssetsCopyProcessor" where
  "enqueueChunk c isEntry p = p\<lparr>queue := queue p @ [(c, isEntry)]\<rparr>"

text \<open>
  The \<^verbatim>\<open>afterEmit\<close> callback up to the call of \<^verbatim>\<open>execute\<close>: it returns the local and
  the remote processor with their queues.
\<close>

definition afterEmit ::
  "hook_env \<Rightarrow> plugin_state \<Rightarrow> compilation \<Rightarrow>
   error + (AssetsCopyProcessor \<times> AssetsCopyProcessor)" where
  "afterEmit env st compilation =
     (case outputPath compilation of
        None \<Rightarrow> Inl (Error ''Cannot infer output path from compilation'')
      | Some outputPath' \<Rightarrow>
          if outputPath' = []
          then Inl (Error ''Cannot infer output path from compilation'')
          else
            let localAssetsCopyProcessor = new_AssetsCopyProcessor
                  \<lparr>pc_platform = env_platform env, pc_outputPath = outputPath',
                   pc_bundleOutput = env_bundleOutput env,
                   pc_bundleOutputDir = env_bundleOutputDir env,
                   pc_sourcemapOutput = env_sourcemapOutput env,
                   pc_assetsDest = env_assetsDest env\<rparr>;
                remoteDir = (case env_remoteChunksOutput env of None \<Rightarrow> [] | Some r \<Rightarrow> r);
                remoteAssetsCopyProcessor = new_AssetsCopyProcessor
                  \<lparr>pc_platform = env_platform env, pc_outputPath = outputPath',
                   pc_bundleOutput = [], pc_bundleOutputDir = remoteDir,
                   pc_sourcemapOutput = [], pc_assetsDest = remoteDir\<rparr>;
                localP = fold (\<lambda>c. enqueueChunk c (st_entryChunk st = Some c))
                           (st_localChunks st) localAssetsCopyProcessor;
                remoteP = (if truthy_str (env_remoteChunksOutput env)
                           then fold (\<lambda>c. enqueueChunk c False)
                                  (st_remoteChunks st) remoteAssetsCopyProcessor
                           else remoteAssetsCopyProcessor)
            in Inr (localP, remoteP))"

text \<open>
  Modelled from the spec: the bundler's pipeline is not part of the sources. The two
  stages are run in order, once per build, for the callbacks the plugin has tapped; a
  fatal error in the first stage aborts the build step, so the second stage is not run.
  A compiler on which nothing is tapped runs neither.
\<close>

definition runBuild ::
  "compiler \<Rightarrow> compilation \<Rightarrow>
   (error + unit) \<times> plugin_state \<times> compilation \<times>
   (AssetsCopyProcessor \<times> AssetsCopyProcessor) option" where
  "runBuild compiler compilation =
     (case compilation_taps compiler of
        [] \<Rightarrow> (Inr (), fresh_state, compilation, None)
      | (_, env) # _ \<Rightarrow>
          (case processAssets env fresh_state compilation of
             (Inl err, st, compilation') \<Rightarrow> (Inl err, st, compilation', None)
           | (Inr _, st, compilation') \<Rightarrow>
               (case afterEmit_taps compiler of
                  [] \<Rightarrow> (Inr (), st, compilation', None)
                | (_, env') # _ \<Rightarrow>
                    (case afterEmit env' st compilation' of
                       Inl err \<Rightarrow> (Inl err, st, compilation', None)
                     | Inr ps \<Rightarrow> (Inr (), st, compilation', Some ps)))))"

section \<open>Observations and example builds\<close>

text \<open>The plugin's variables after the \<^verbatim>\<open>processAssets\<close> callback of a first build.\<close>

definition processed :: "hook_env \<Rightarrow> compilation \<Rightarrow> plugin_state" where
  "processed env compilation = fst (snd (processAssets env fresh_state compilation))"

text \<open>
  Small builds for the examples below. Chunks are numbered; \<open>named_chunk n fs cl\<close> is a
  chunk called \<open>n\<close> with the files \<open>fs\<close> whose \<^verbatim>\<open>getAllInitialChunks()\<close> is \<open>cl\<close>.
  \<open>example_paths\<close> stands in for Node's \<^verbatim>\<open>path\<close> on plain POSIX paths.
\<close>

definition named_chunk :: "string \<Rightarrow> string list \<Rightarrow> chunk list \<Rightarrow> chunk_obj" where
  "named_chunk n fs cl =
     \<lparr>chunk_name = Some n, chunk_id = None, chunk_files = fs, allInitialChunks = cl\<rparr>"

definition no_chunk :: chunk_obj where
  "no_chunk = \<lparr>chunk_name = None, chunk_id = None, chunk_files = [], allInitialChunks = []\<rparr>"

definition initial_group :: "chunk list \<Rightarrow> chunk_group" where
  "initial_group cs = \<lparr>isInitial = True, group_chunks = cs\<rparr>"

definition example_env :: hook_env where
  "example_env =
     \<lparr>env_platform = Some ''ios'', env_bundleOutput = ''/app/out/main.jsbundle'',
      env_bundleOutputDir = ''/app/out'', env_sourcemapOutput = ''/app/out/main.jsbundle.map'',
      env_assetsDest = ''/app/out'', env_remoteChunksOutput = None, env_localChunks = None,
      env_entryChunkName = ''main''\<rparr>"

definition build_extra_first :: compilation where
  "build_extra_first =
     \<lparr>chunks = [0, 1],
      chunkGroups = [initial_group [1], initial_group [0]],
      heap = (\<lambda>_. no_chunk)
        (0 := named_chunk ''extra'' [''extra.chunk.bundle''] [0],
         1 := named_chunk ''main'' [''index.bundle''] [1, 0]),
      assets = [''index.bundle'' \<mapsto> ''run();'', ''extra.chunk.bundle'' \<mapsto> ''extra();''],
      outputPath = Some ''/app/build''\<rparr>"

definition build_vendor_first :: compilation where
  "build_vendor_first =
     \<lparr>chunks = [0, 1],
      chunkGroups = [initial_group [0, 1]],
      heap = (\<lambda>_. no_chunk)
        (0 := named_chunk ''vendor'' [''vendor.chunk.bundle''] [0, 1],
         1 := named_chunk ''main'' [''index.bundle''] [0, 1]),
      assets = [''index.bundle'' \<mapsto> ''run();'', ''vendor.chunk.bundle'' \<mapsto> ''lib();''],
      outputPath = Some ''/app/build''\<rparr>"

definition env_ui :: hook_env where
  "env_ui = example_env\<lparr>env_localChunks := Some (Many [\<lambda>chunkId. chunkId = Some ''ui''])\<rparr>"

definition build_two_shared :: compilation where
  "build_two_shared =
     \<lparr>chunks = [0, 1, 2, 3, 4],
      chunkGroups = [initial_group [0], initial_group [1], initial_group [2],
                     initial_group [3], initial_group [4]],
      heap = (\<lambda>_. no_chunk)
        (0 := named_chunk ''main'' [''index.bundle''] [0],
         1 := named_chunk ''settings'' [''settings.chunk.bundle''] [1, 3],
         2 := named_chunk ''profile'' [''profile.chunk.bundle''] [2, 4, 3],
         3 := named_chunk ''vendor'' [''vendor.chunk.bundle''] [3],
         4 := named_chunk ''ui'' [''ui.chunk.bundle''] [4, 3]),
      assets = [''index.bundle'' \<mapsto> ''run();''],
      outputPath = Some ''/app/build''\<rparr>"

definition env_index :: hook_env where
  "env_index = example_env\<lparr>env_entryChunkName := ''index''\<rparr>"

definition build_no_initial_group :: compilation where
  "build_no_initial_group =
     build_extra_first\<lparr>chunkGroups := [\<lparr>isInitial = False, group_chunks = [1, 0]\<rparr>]\<rparr>"

definition example_paths :: path_ops where
  "example_paths =
     \<lparr>isAbsolute = (\<lambda>p. case p of [] \<Rightarrow> False | c # _ \<Rightarrow> c = CHR ''/''),
      join = (\<lambda>a b. a @ ''/'' @ b),
      dirname = (\<lambda>p. rev (drop 1 (dropWhile (\<lambda>c. c \<noteq> CHR ''/'') (rev p))))\<rparr>"

definition config_ios :: OutputPluginConfig where
  "config_ios = \<lparr>platform = Some ''ios'', devServerEnabled = None, localChunks = None,
                 remoteChunksOutput = None, entry = None\<rparr>"

definition bundle_args :: BundleArguments where
  "bundle_args = \<lparr>bundleOutput = ''out/main.jsbundle'', assetsDest = None,
                   sourcemapOutput = None\<rparr>"

definition cli_bundle :: CliOptions where
  "cli_bundle =
     \<lparr>config_root = ''/app'',
      arguments = \<lparr>args_has_start = False, args_bundle = Some bundle_args\<rparr>\<rparr>"

definition cli_start :: CliOptions where
  "cli_start = \<lparr>config_root = ''/app'',
                 arguments = \<lparr>args_has_start = True, args_bundle = None\<rparr>\<rparr>"

definition no_taps :: compiler where
  "no_taps = \<lparr>compilation_taps = [], afterEmit_taps = []\<rparr>"

definition build_separate :: compilation where
  "build_separate =
     \<lparr>chunks = [0, 1, 2],
      chunkGroups = [initial_group [0], \<lparr>isInitial = False, group_chunks = [1]\<rparr>,
                     \<lparr>isInitial = False, group_chunks = [2]\<rparr>],
      heap = (\<lambda>_. no_chunk)
        (0 := named_chunk ''main'' [''index.bundle''] [0],
         1 := named_chunk ''settings'' [''settings.chunk.bundle''] [],
         2 := \<lparr>chunk_name = None, chunk_id = Some (IdNum 42),
                chunk_files = [''42.chunk.bundle''], allInitialChunks = []\<rparr>),
      assets = [''index.bundle'' \<mapsto> ''run();''],
      outputPath = Some ''/app/build''\<rparr>"

definition config_shared_local :: OutputPluginConfig where
  "config_shared_local =
     \<lparr>platform = Some ''ios'', devServerEnabled = None,
      localChunks = Some (Single (\<lambda>chunkId. chunkId = Some ''shared'')),
      remoteChunksOutput = None, entry = None\<rparr>"

definition build_dependOn :: compilation where
  "build_dependOn =
     \<lparr>chunks = [0, 1, 2],
      chunkGroups = [initial_group [0], initial_group [1], initial_group [2]],
      heap = (\<lambda>_. no_chunk)
        (0 := named_chunk ''main'' [''index.bundle''] [0],
         1 := named_chunk ''feature'' [''feature.chunk.bundle''] [1],
         2 := named_chunk ''shared'' [''shared.chunk.bundle''] [2, 1]),
      assets = [''index.bundle'' \<mapsto> ''run();'', ''feature.chunk.bundle'' \<mapsto> ''feature();'',
                ''shared.chunk.bundle'' \<mapsto> ''shared();''],
      outputPath = Some ''/app/build''\<rparr>"

section \<open>Properties of the two loops\<close>

subsection \<open>The first loop\<close>

lemma set_fold_set_add: "set (fold set_add xs s) = set s \<union> set xs"
  by (induction xs arbitrary: s) (auto simp: set_add_def)

lemma distinct_fold_set_add: "distinct s \<Longrightarrow> distinct (fold set_add xs s)"
  by (induction xs arbitrary: s) (auto simp: set_add_def)

lemma classifyChunks_Cons:
  "classifyChunks env compilation e (c # cs) (S, L, R) =
     classifyChunks env compilation e cs
       (if c \<in> set S then (S, L, R)
        else (fold set_add (filter (\<lambda>s. s \<noteq> c) (allInitialChunks (heap compilation c))) S,
              if e = Some c \<or> isLocalChunk env (chunkIdentity compilation c) then L @ [c] else L,
              if e = Some c \<or> isLocalChunk env (chunkIdentity compilation c) then R else R @ [c]))"
  by (simp add: Let_def)

lemma classifyChunks_distinct:
  "classifyChunks env compilation e cs (S, L, R) = (S', L', R') \<Longrightarrow> distinct S \<Longrightarrow> distinct S'"
proof (induction cs arbitrary: S L R)
  case Nil
  then show ?case by simp
next
  case (Cons c cs)
  from Cons.prems show ?case
    unfolding classifyChunks_Cons
    by (auto split: if_splits dest!: Cons.IH simp: distinct_fold_set_add)
qed

lemma classifyChunks_mono:
  "classifyChunks env compilation e cs (S, L, R) = (S', L', R') \<Longrightarrow>
   set S \<subseteq> set S' \<and> set L \<subseteq> set L' \<and> set R \<subseteq> set R'"
proof (induction cs arbitrary: S L R)
  case Nil
  then show ?case by simp
next
  case (Cons c cs)
  from Cons.prems show ?case
    unfolding classifyChunks_Cons
    by (auto split: if_splits dest!: Cons.IH simp: set_fold_set_add)
qed

lemma classifyChunks_covers:
  "classifyChunks env compilation e cs (S, L, R) = (S', L', R') \<Longrightarrow> c \<in> set cs \<Longrightarrow>
   c \<in> set S' \<or> c \<in> set L' \<or> c \<in> set R'"
proof (induction cs arbitrary: S L R)
  case Nil
  then show ?case by simp
next
  case (Cons x cs)
  obtain S1 L1 R1 where step:
    "(if x \<in> set S then (S, L, R)
      else (fold set_add (filter (\<lambda>s. s \<noteq> x) (allInitialChunks (heap compilation x))) S,
            if e = Some x \<or> isLocalChunk env (chunkIdentity compilation x) then L @ [x] else L,
            if e = Some x \<or> isLocalChunk env (chunkIdentity compilation x) then R else R @ [x]))
     = (S1, L1, R1)"
    by (metis prod_cases3)
  with Cons.prems(1) have rest: "classifyChunks env compilation e cs (S1, L1, R1) = (S', L', R')"
    unfolding classifyChunks_Cons by simp
  show ?case
  proof (cases "c = x")
    case True
    from step have "x \<in> set S1 \<or> x \<in> set L1 \<or> x \<in> set R1"
      by (auto split: if_splits simp: set_fold_set_add)
    with classifyChunks_mono[OF rest] True show ?thesis by auto
  next
    case False
    with Cons.prems have "c \<in> set cs" by simp
    from Cons.IH[OF rest this] show ?thesis .
  qed
qed

lemma classifyChunks_local:
  "classifyChunks env compilation e cs (S, L, R) = (S', L', R') \<Longrightarrow> x \<in> set L' \<Longrightarrow>
   x \<in> set L \<or> (x \<in> set cs \<and> (e = Some x \<or> isLocalChunk env (chunkIdentity compilation x)))"
proof (induction cs arbitrary: S L R)
  case Nil
  then show ?case by simp
next
  case (Cons c cs)
  obtain S1 L1 R1 where step:
    "(if c \<in> set S then (S, L, R)
      else (fold set_add (filter (\<lambda>s. s \<noteq> c) (allInitialChunks (heap compilation c))) S,
            if e = Some c \<or> isLocalChunk env (chunkIdentity compilation c) then L @ [c] else L,
            if e = Some c \<or> isLocalChunk env (chunkIdentity compilation c) then R else R @ [c]))
     = (S1, L1, R1)"
    by (metis prod_cases3)
  with Cons.prems(1) have rest: "classifyChunks env compilation e cs (S1, L1, R1) = (S', L', R')"
    unfolding classifyChunks_Cons by simp
  from Cons.IH[OF rest Cons.prems(2)]
  have "x \<in> set L1 \<or>
        (x \<in> set cs \<and> (e = Some x \<or> isLocalChunk env (chunkIdentity compilation x)))" .
  moreover from step have "x \<in> set L1 \<Longrightarrow>
     x \<in> set L \<or> (x = c \<and> (e = Some x \<or> isLocalChunk env (chunkIdentity compilation x)))"
    by (auto split: if_splits)
  ultimately show ?case by auto
qed

lemma classifyChunks_remote:
  "classifyChunks env compilation e cs (S, L, R) = (S', L', R') \<Longrightarrow> x \<in> set R' \<Longrightarrow>
   x \<in> set R \<or>
   (x \<in> set cs \<and> e \<noteq> Some x \<and> \<not> isLocalChunk env (chunkIdentity compilation x))"
proof (induction cs arbitrary: S L R)
  case Nil
  then show ?case by simp
next
  case (Cons c cs)
  obtain S1 L1 R1 where step:
    "(if c \<in> set S then (S, L, R)
      else (fold set_add (filter (\<lambda>s. s \<noteq> c) (allInitialChunks (heap compilation c))) S,
            if e = Some c \<or> isLocalChunk env (chunkIdentity compilation c) then L @ [c] else L,
            if e = Some c \<or> isLocalChunk env (chunkIdentity compilation c) then R else R @ [c]))
     = (S1, L1, R1)"
    by (metis prod_cases3)
  with Cons.prems(1) have rest: "classifyChunks env compilation e cs (S1, L1, R1) = (S', L', R')"
    unfolding classifyChunks_Cons by simp
  from Cons.IH[OF rest Cons.prems(2)]
  have "x \<in> set R1 \<or>
     (x \<in> set cs \<and> e \<noteq> Some x \<and> \<not> isLocalChunk env (chunkIdentity compilation x))" .
  moreover from step have "x \<in> set R1 \<Longrightarrow>
     x \<in> set R \<or> (x = c \<and> e \<noteq> Some x \<and> \<not> isLocalChunk env (chunkIdentity compilation x))"
    by (auto split: if_splits)
  ultimately show ?case by auto
qed

subsection \<open>The second loop\<close>

lemma resolveShared_Cons:
  "resolveShared env compilation (s # ss) (L, R) =
     resolveShared env compilation ss
       (if (\<exists>l\<in>set L. s \<in> set (allInitialChunks (heap compilation l))) \<or>
           isLocalChunk env (chunkIdentity compilation s)
        then (L @ [s], R) else (L, R @ [s]))"
  by (simp add: Let_def list_ex_iff)

lemma resolveShared_append:
  "resolveShared env compilation (xs @ ys) acc =
     resolveShared env compilation ys (resolveShared env compilation xs acc)"
proof (induction xs arbitrary: acc)
  case Nil
  show ?case by simp
next
  case (Cons x xs)
  obtain L R where acc: "acc = (L, R)" by (cases acc)
  show ?case unfolding acc append_Cons resolveShared_Cons by (rule Cons.IH)
qed

lemma resolveShared_mono:
  "resolveShared env compilation ss (L, R) = (L', R') \<Longrightarrow>
   set L \<subseteq> set L' \<and> set R \<subseteq> set R' \<and> set L' \<union> set R' = set L \<union> set R \<union> set ss"
proof (induction ss arbitrary: L R)
  case Nil
  then show ?case by simp
next
  case (Cons s ss)
  from Cons.prems show ?case
    unfolding resolveShared_Cons
    by (auto split: if_splits dest!: Cons.IH)
qed

text \<open>A chunk that the second loop does not visit keeps its membership.\<close>
lemma resolveShared_notin:
  "resolveShared env compilation ss (L, R) = (L', R') \<Longrightarrow> x \<notin> set ss \<Longrightarrow>
   (x \<in> set L' \<longleftrightarrow> x \<in> set L) \<and> (x \<in> set R' \<longleftrightarrow> x \<in> set R)"
proof (induction ss arbitrary: L R)
  case Nil
  then show ?case by simp
next
  case (Cons s ss)
  from Cons.prems show ?case
    unfolding resolveShared_Cons
    by (auto split: if_splits dest!: Cons.IH)
qed

lemma resolveShared_local:
  "resolveShared env compilation ss (L, R) = (L', R') \<Longrightarrow> x \<in> set L' \<Longrightarrow>
   x \<in> set L \<or>
   (x \<in> set ss \<and> ((\<exists>l\<in>set L'. x \<in> set (allInitialChunks (heap compilation l))) \<or>
       isLocalChunk env (chunkIdentity compilation x)))"
proof (induction ss arbitrary: L R)
  case Nil
  then show ?case by simp
next
  case (Cons s ss)
  obtain L1 R1 where step:
    "(if (\<exists>l\<in>set L. s \<in> set (allInitialChunks (heap compilation l))) \<or>
           isLocalChunk env (chunkIdentity compilation s)
        then (L @ [s], R) else (L, R @ [s])) = (L1, R1)"
    by (metis surj_pair)
  with Cons.prems(1) have rest: "resolveShared env compilation ss (L1, R1) = (L', R')"
    unfolding resolveShared_Cons by simp
  have sub: "set L \<subseteq> set L'" using resolveShared_mono[OF rest] step by (auto split: if_splits)
  from Cons.IH[OF rest Cons.prems(2)]
  have "x \<in> set L1 \<or>
   (x \<in> set ss \<and> ((\<exists>l\<in>set L'. x \<in> set (allInitialChunks (heap compilation l))) \<or>
       isLocalChunk env (chunkIdentity compilation x)))" .
  moreover from step sub have "x \<in> set L1 \<Longrightarrow> x \<in> set L \<or>
     (x = s \<and> ((\<exists>l\<in>set L'. x \<in> set (allInitialChunks (heap compilation l))) \<or>
       isLocalChunk env (chunkIdentity compilation x)))"
    by (auto split: if_splits)
  ultimately show ?case by auto
qed

lemma processAssets_state:
  "fst (snd (processAssets env st compilation)) =
     \<lparr>st_entryGroup = findEntryGroup compilation,
      st_entryChunk = findEntryChunk env compilation,
      st_localChunks =
        fst (classify env compilation (findEntryChunk env compilation)
               (st_localChunks st, st_remoteChunks st)),
      st_remoteChunks =
        snd (classify env compilation (findEntryChunk env compilation)
               (st_localChunks st, st_remoteChunks st))\<rparr>"
  by (simp add: processAssets_def Let_def split: prod.splits option.splits sum.splits)

lemma processed_eq:
  "processed env compilation =
     \<lparr>st_entryGroup = findEntryGroup compilation,
      st_entryChunk = findEntryChunk env compilation,
      st_localChunks = fst (classify env compilation (findEntryChunk env compilation) ([], [])),
      st_remoteChunks = snd (classify env compilation (findEntryChunk env compilation) ([], []))\<rparr>"
  unfolding processed_def processAssets_state by (simp add: fresh_state_def)

lemma classifyChunks_no_sharing:
  "\<forall>c\<in>set cs. set (allInitialChunks (heap compilation c)) \<subseteq> {c} \<Longrightarrow>
   classifyChunks env compilation e cs ([], L, R) =
     ([], L @ filter (\<lambda>c. e = Some c \<or> isLocalChunk env (chunkIdentity compilation c)) cs,
          R @ filter (\<lambda>c. \<not> (e = Some c \<or> isLocalChunk env (chunkIdentity compilation c))) cs)"
proof (induction cs arbitrary: L R)
  case Nil
  show ?case by simp
next
  case (Cons c cs)
  from Cons.prems have "filter (\<lambda>s. s \<noteq> c) (allInitialChunks (heap compilation c)) = []"
    by (auto simp: filter_empty_conv)
  moreover from Cons.prems
  have "\<forall>c\<in>set cs. set (allInitialChunks (heap compilation c)) \<subseteq> {c}" by simp
  ultimately show ?case
    unfolding classifyChunks_Cons by (simp add: Cons.IH)
qed

text \<open>No chunk of the graph is left out of both lists.\<close>

lemma every_chunk_classified:
  assumes "c \<in> set (chunks compilation)"
  shows "c \<in> set (st_localChunks (processed env compilation)) \<or>
         c \<in> set (st_remoteChunks (processed env compilation))"
proof -
  obtain shared L1 R1 where
    pass1: "classifyChunks env compilation (findEntryChunk env compilation)
              (chunks compilation) ([], [], []) = (shared, L1, R1)"
    by (metis prod_cases3)
  have pass2: "resolveShared env compilation shared (L1, R1) =
     (st_localChunks (processed env compilation), st_remoteChunks (processed env compilation))"
    unfolding processed_eq using pass1 by (simp add: classify_def)
  from classifyChunks_covers[OF pass1 assms] resolveShared_mono[OF pass2]
  show ?thesis by auto
qed

subsection \<open>The guard, the entry lookup and the queues\<close>

lemma apply_plugin_absent: "apply_plugin P config None compiler = Inr compiler"
  by (simp add: apply_plugin_def)

lemma apply_plugin_start:
  "args_has_start (arguments cli) \<Longrightarrow> apply_plugin P config (Some cli) compiler = Inr compiler"
  by (simp add: apply_plugin_def)

lemma apply_plugin_devServer:
  "devServerEnabled config = Some True \<Longrightarrow> apply_plugin P config (Some cli) compiler = Inr compiler"
  by (simp add: apply_plugin_def truthy_bool_def)

lemma runBuild_no_taps: "runBuild no_taps compilation = (Inr (), fresh_state, compilation, None)"
  by (simp add: runBuild_def no_taps_def)

lemma processAssets_fst_None:
  "findEntryChunk env compilation = None \<Longrightarrow>
   fst (processAssets env st compilation) =
     Inl (Error ''Cannot infer entry chunk - this should have not happened.'') \<and>
   snd (snd (processAssets env st compilation)) = compilation"
  by (simp add: processAssets_def Let_def split: prod.splits)

lemma findEntryChunk_None:
  assumes "(\<forall>g\<in>set (chunkGroups compilation). \<not> isInitial g) \<or>
           (\<exists>g. findEntryGroup compilation = Some g \<and>
                (\<forall>c\<in>set (group_chunks g).
                   chunk_name (heap compilation c) \<noteq> Some (env_entryChunkName env)))"
  shows "findEntryChunk env compilation = None"
  using assms
proof
  assume "\<forall>g\<in>set (chunkGroups compilation). \<not> isInitial g"
  then have "findEntryGroup compilation = None"
    by (simp add: findEntryGroup_def find_None_iff)
  then show ?thesis by (simp add: findEntryChunk_def)
next
  assume "\<exists>g. findEntryGroup compilation = Some g \<and>
                (\<forall>c\<in>set (group_chunks g).
                   chunk_name (heap compilation c) \<noteq> Some (env_entryChunkName env))"
  then obtain g where g: "findEntryGroup compilation = Some g"
    and n: "\<forall>c\<in>set (group_chunks g).
                   chunk_name (heap compilation c) \<noteq> Some (env_entryChunkName env)"
    by blast
  from n have "find (\<lambda>c. chunk_name (heap compilation c) = Some (env_entryChunkName env))
                 (group_chunks g) = None"
    by (simp add: find_None_iff)
  with g show ?thesis by (simp add: findEntryChunk_def)
qed

lemma fold_enqueueChunk_eq:
  "fold (\<lambda>c. enqueueChunk c (flag c)) cs p = p\<lparr>queue := queue p @ map (\<lambda>c. (c, flag c)) cs\<rparr>"
  by (induction cs arbitrary: p) (simp_all add: enqueueChunk_def)

lemma apply_plugin_remoteChunksOutput:
  assumes none: "remoteChunksOutput config = None \<or> remoteChunksOutput config = Some []"
      and app: "apply_plugin P config cliOptions \<lparr>compilation_taps = [], afterEmit_taps = []\<rparr>
                  = Inr compiler'"
      and tap: "afterEmit_taps compiler' = [(n, env)]"
  shows "\<not> truthy_str (env_remoteChunksOutput env)"
proof (cases cliOptions)
  case None
  with app tap show ?thesis by (auto simp add: apply_plugin_def)
next
  case (Some cli)
  show ?thesis
  proof (cases "args_has_start (arguments cli) \<or> truthy_bool (devServerEnabled config)")
    case True
    with Some app tap show ?thesis by (auto simp add: apply_plugin_def)
  next
    case False
    show ?thesis
    proof (cases "args_bundle (arguments cli)")
      case None
      with False Some app show ?thesis by (simp add: apply_plugin_def)
    next
      case (Some args)
      from app tap False Some \<open>cliOptions = Some cli\<close>
      have "env = captured P config cli args"
        by (auto simp: apply_plugin_def)
      with none have "env_remoteChunksOutput env = remoteChunksOutput config"
        by (auto simp: captured_def Let_def)
      with none show ?thesis by (auto simp: truthy_str_def)
    qed
  qed
qed

text \<open>
  With no remote output directory and an output path, the \<^verbatim>\<open>afterEmit\<close> callback gives
  the local list, in order, to the processor that has the local destinations, and gives
  nothing to the other processor.
\<close>

lemma afterEmit_without_remote_output:
  assumes none: "remoteChunksOutput config = None \<or> remoteChunksOutput config = Some []"
      and app: "apply_plugin P config cliOptions \<lparr>compilation_taps = [], afterEmit_taps = []\<rparr>
                  = Inr compiler'"
      and tap: "afterEmit_taps compiler' = [(n, env)]"
      and out: "outputPath compilation = Some p" "p \<noteq> []"
  shows "afterEmit env st compilation =
           Inr (\<lparr>proc_config =
                   \<lparr>pc_platform = env_platform env, pc_outputPath = p,
                    pc_bundleOutput = env_bundleOutput env,
                    pc_bundleOutputDir = env_bundleOutputDir env,
                    pc_sourcemapOutput = env_sourcemapOutput env,
                    pc_assetsDest = env_assetsDest env\<rparr>,
                  queue = map (\<lambda>c. (c, st_entryChunk st = Some c)) (st_localChunks st)\<rparr>,
                \<lparr>proc_config =
                   \<lparr>pc_platform = env_platform env, pc_outputPath = p,
                    pc_bundleOutput = [], pc_bundleOutputDir = [],
                    pc_sourcemapOutput = [], pc_assetsDest = []\<rparr>,
                  queue = []\<rparr>)"
proof -
  note f = apply_plugin_remoteChunksOutput[OF none app tap]
  then have "(case env_remoteChunksOutput env of None \<Rightarrow> [] | Some r \<Rightarrow> r) = []"
    by (auto simp: truthy_str_def split: option.splits)
  with f out show ?thesis
    by (simp add: afterEmit_def Let_def fold_enqueueChunk_eq new_AssetsCopyProcessor_def)
qed

section \<open>The claims\<close>

text \<open>
  Claim C1. The two loops do not always put a chunk into exactly one of the two lists.
  In the build \<open>build_extra_first\<close> the entry group and the entry chunk \<^verbatim>\<open>main\<close> are found,
  the chunk \<^verbatim>\<open>extra\<close> comes first in \<^verbatim>\<open>compilation.chunks\<close> and is put into the remote
  list by the first loop, the chunk \<^verbatim>\<open>main\<close> then records it as shared, and the second loop
  puts it into the local list as well: it ends in both lists.
\<close>

theorem chunk_in_both_collections:
  "fst (processAssets example_env fresh_state build_extra_first) = Inr () \<and>
   st_entryChunk (processed example_env build_extra_first) = Some 1 \<and>
   st_localChunks (processed example_env build_extra_first) = [1, 0] \<and>
   st_remoteChunks (processed example_env build_extra_first) = [0]"
  by code_simp

text \<open>
  Claim C2. The entry chunk is not always put into the local list. In the build
  \<open>build_vendor_first\<close> the chunk \<^verbatim>\<open>vendor\<close> of the entry group comes first, so the entry
  chunk \<^verbatim>\<open>main\<close> is deferred; the second loop has no test for the entry chunk, no local
  chunk uses it and no rule matches it, and it ends in the remote list only.
\<close>

theorem deferred_entry_chunk_is_remote:
  "fst (processAssets example_env fresh_state build_vendor_first) = Inr () \<and>
   st_entryChunk (processed example_env build_vendor_first) = Some 1 \<and>
   st_localChunks (processed example_env build_vendor_first) = [] \<and>
   st_remoteChunks (processed example_env build_vendor_first) = [0, 1]"
  by code_simp

text \<open>
  Claim C3. As stated, with the final local list, the claim fails: in \<open>build_two_shared\<close>
  the shared chunks are resolved in the order \<^verbatim>\<open>vendor\<close>, \<^verbatim>\<open>ui\<close>; \<^verbatim>\<open>ui\<close> becomes local by
  its rule and has \<^verbatim>\<open>vendor\<close> in its initial closure, but \<^verbatim>\<open>vendor\<close> was resolved before
  it and is remote.
\<close>

theorem shared_chunk_of_later_local_chunk_counterexample:
  "fst (classifyChunks env_ui build_two_shared (findEntryChunk env_ui build_two_shared)
          (chunks build_two_shared) ([], [], [])) = [3, 4] \<and>
   st_localChunks (processed env_ui build_two_shared) = [0, 4] \<and>
   st_remoteChunks (processed env_ui build_two_shared) = [1, 2, 3] \<and>
   allInitialChunks (heap build_two_shared 4) = [4, 3]"
  by code_simp

text \<open>
  Claim C3, as amended. Let \<open>s\<close> be a chunk of the shared set and \<open>Lp\<close> the local list at the
  moment \<open>s\<close> is resolved: the local chunks of the first loop and the shared chunks that the
  second loop has made local before \<open>s\<close>. If a chunk of \<open>Lp\<close> has \<open>s\<close> in its initial closure,
  or else the identity of \<open>s\<close> matches the rule set, then \<open>s\<close> is in the final local list and
  the second loop does not add it to the remote list; otherwise \<open>s\<close> is in the final remote
  list and the second loop does not add it to the local list.
\<close>

theorem shared_chunk_resolution:
  assumes pass1: "classifyChunks env compilation e (chunks compilation) ([], L0, R0) = (shared, L1, R1)"
      and split: "shared = pre @ s # post"
      and before: "resolveShared env compilation pre (L1, R1) = (Lp, Rp)"
      and final: "classify env compilation e (L0, R0) = (L, R)"
  shows "if (\<exists>l\<in>set Lp. s \<in> set (allInitialChunks (heap compilation l))) \<or>
            isLocalChunk env (chunkIdentity compilation s)
         then s \<in> set L \<and> (s \<in> set R \<longleftrightarrow> s \<in> set R1)
         else s \<in> set R \<and> (s \<in> set L \<longleftrightarrow> s \<in> set L1)"
proof -
  have "distinct shared" using classifyChunks_distinct[OF pass1] by simp
  with split have notin: "s \<notin> set pre" "s \<notin> set post" by auto
  have eq: "resolveShared env compilation post
          (if (\<exists>l\<in>set Lp. s \<in> set (allInitialChunks (heap compilation l))) \<or>
              isLocalChunk env (chunkIdentity compilation s)
           then (Lp @ [s], Rp) else (Lp, Rp @ [s])) = (L, R)"
  proof -
    have "resolveShared env compilation shared (L1, R1) = (L, R)"
      using final pass1 by (simp add: classify_def)
    then show ?thesis
      unfolding split resolveShared_append before resolveShared_Cons .
  qed
  note pre = resolveShared_notin[OF before notin(1)]
  show ?thesis
  proof (cases "(\<exists>l\<in>set Lp. s \<in> set (allInitialChunks (heap compilation l))) \<or>
            isLocalChunk env (chunkIdentity compilation s)")
    case True
    with eq have "resolveShared env compilation post (Lp @ [s], Rp) = (L, R)" by simp
    from resolveShared_notin[OF this notin(2)] pre True show ?thesis by simp
  next
    case False
    with eq have "resolveShared env compilation post (Lp, Rp @ [s]) = (L, R)" by simp
    from resolveShared_notin[OF this notin(2)] pre False show ?thesis by simp
  qed
qed

theorem shared_chunk_resolution_witness:
  "4 \<in> set (fst (classify env_ui build_two_shared (Some 0) ([], []))) \<and>
   4 \<notin> set (snd (classify env_ui build_two_shared (Some 0) ([], []))) \<and>
   3 \<in> set (snd (classify env_ui build_two_shared (Some 0) ([], []))) \<and>
   3 \<notin> set (fst (classify env_ui build_two_shared (Some 0) ([], [])))"
proof -
  have p1: "classifyChunks env_ui build_two_shared (Some 0) (chunks build_two_shared) ([], [], [])
            = ([3, 4], [0], [1, 2])"
    by code_simp
  have s4: "[3, 4] = [3] @ 4 # ([]::chunk list)" and s3: "[3, 4] = [] @ 3 # ([4]::chunk list)"
    by simp_all
  have b4: "resolveShared env_ui build_two_shared [3] ([0], [1, 2]) = ([0], [1, 2, 3])"
    by code_simp
  have b3: "resolveShared env_ui build_two_shared [] ([0], [1, 2]) = ([0], [1, 2])"
    by simp
  have f: "classify env_ui build_two_shared (Some 0) ([], []) = ([0, 4], [1, 2, 3])"
    by code_simp
  have c4: "(\<exists>l\<in>set [0]. 4 \<in> set (allInitialChunks (heap build_two_shared l))) \<or>
            isLocalChunk env_ui (chunkIdentity build_two_shared 4)"
    by code_simp
  have c3: "\<not> ((\<exists>l\<in>set [0]. 3 \<in> set (allInitialChunks (heap build_two_shared l))) \<or>
            isLocalChunk env_ui (chunkIdentity build_two_shared 3))"
    by code_simp
  from shared_chunk_resolution[OF p1 s4 b4 f] shared_chunk_resolution[OF p1 s3 b3 f] c4 c3
  show ?thesis unfolding f by simp
qed

text \<open>
  Claim C4. A chunk of the graph that is not the entry chunk, whose identity matches no
  rule, and that is in the initial closure of no chunk of the final local list, is in the
  remote list and not in the local list.
\<close>

theorem unmatched_unshared_chunk_is_remote:
  assumes c: "c \<in> set (chunks compilation)"
      and ne: "findEntryChunk env compilation \<noteq> Some c"
      and nm: "\<not> isLocalChunk env (chunkIdentity compilation c)"
      and nu: "\<forall>l\<in>set (st_localChunks (processed env compilation)).
                 c \<notin> set (allInitialChunks (heap compilation l))"
  shows "c \<in> set (st_remoteChunks (processed env compilation)) \<and>
         c \<notin> set (st_localChunks (processed env compilation))"
proof -
  let ?e = "findEntryChunk env compilation"
  obtain shared L1 R1 where
    pass1: "classifyChunks env compilation ?e (chunks compilation) ([], [], []) = (shared, L1, R1)"
    by (metis prod_cases3)
  have pass2: "resolveShared env compilation shared (L1, R1) =
     (st_localChunks (processed env compilation), st_remoteChunks (processed env compilation))"
    unfolding processed_eq using pass1 by (simp add: classify_def)
  have notL1: "c \<notin> set L1" using classifyChunks_local[OF pass1, of c] ne nm by auto
  have notL: "c \<notin> set (st_localChunks (processed env compilation))"
    using resolveShared_local[OF pass2, of c] notL1 nu nm by auto
  from classifyChunks_covers[OF pass1 c] notL1 have "c \<in> set shared \<or> c \<in> set R1" by auto
  with resolveShared_mono[OF pass2] notL
  have "c \<in> set (st_remoteChunks (processed env compilation))" by auto
  with notL show ?thesis by simp
qed

theorem unmatched_unshared_chunk_is_remote_witness:
  "1 \<in> set (st_remoteChunks (processed env_ui build_two_shared)) \<and>
   1 \<notin> set (st_localChunks (processed env_ui build_two_shared))"
proof -
  have c: "1 \<in> set (chunks build_two_shared)" by code_simp
  have ne: "findEntryChunk env_ui build_two_shared \<noteq> Some 1" by code_simp
  have nm: "\<not> isLocalChunk env_ui (chunkIdentity build_two_shared 1)" by code_simp
  have nu: "\<forall>l\<in>set (st_localChunks (processed env_ui build_two_shared)).
                 1 \<notin> set (allInitialChunks (heap build_two_shared l))" by code_simp
  from unmatched_unshared_chunk_is_remote[OF c ne nm nu] show ?thesis .
qed

text \<open>
  Claim C5. When no chunk group is initial, or no chunk of the first initial group has the
  entry name, the \<^verbatim>\<open>processAssets\<close> callback throws the entry-chunk error and leaves the
  compilation, with its assets, as it was; the build stops there, so nothing is enqueued
  for distribution.
\<close>

theorem missing_entry_chunk_fails_before_mutation:
  assumes "(\<forall>g\<in>set (chunkGroups compilation). \<not> isInitial g) \<or>
           (\<exists>g. findEntryGroup compilation = Some g \<and>
                (\<forall>c\<in>set (group_chunks g).
                   chunk_name (heap compilation c) \<noteq> Some (env_entryChunkName env)))"
  shows "fst (processAssets env st compilation) =
           Inl (Error ''Cannot infer entry chunk - this should have not happened.'') \<and>
         snd (snd (processAssets env st compilation)) = compilation \<and>
         fst (runBuild \<lparr>compilation_taps = [(n, env)], afterEmit_taps = [(n, env)]\<rparr> compilation) =
           Inl (Error ''Cannot infer entry chunk - this should have not happened.'') \<and>
         snd (snd (runBuild \<lparr>compilation_taps = [(n, env)], afterEmit_taps = [(n, env)]\<rparr>
                compilation)) = (compilation, None)"
proof -
  note none = findEntryChunk_None[OF assms]
  note pa = processAssets_fst_None[OF none]
  obtain r st' c' where run: "processAssets env fresh_state compilation = (r, st', c')"
    by (metis prod_cases3)
  with processAssets_fst_None[OF none, of fresh_state]
  have "r = Inl (Error ''Cannot infer entry chunk - this should have not happened.'')"
       "c' = compilation" by simp_all
  with run have "runBuild \<lparr>compilation_taps = [(n, env)], afterEmit_taps = [(n, env)]\<rparr> compilation
     = (Inl (Error ''Cannot infer entry chunk - this should have not happened.''), st', compilation, None)"
    by (simp add: runBuild_def)
  with pa show ?thesis by simp
qed

theorem missing_entry_chunk_fails_before_mutation_witness:
  "fst (runBuild \<lparr>compilation_taps = [(''OutputPlugin'', env_index)],
                  afterEmit_taps = [(''OutputPlugin'', env_index)]\<rparr> build_extra_first) =
     Inl (Error ''Cannot infer entry chunk - this should have not happened.'') \<and>
   snd (snd (runBuild \<lparr>compilation_taps = [(''OutputPlugin'', env_index)],
                  afterEmit_taps = [(''OutputPlugin'', env_index)]\<rparr> build_extra_first)) =
     (build_extra_first, None) \<and>
   fst (processAssets example_env fresh_state build_no_initial_group) =
     Inl (Error ''Cannot infer entry chunk - this should have not happened.'') \<and>
   snd (snd (processAssets example_env fresh_state build_no_initial_group)) =
     build_no_initial_group"
proof -
  have g: "findEntryGroup build_extra_first = Some (initial_group [1])"
    by code_simp
  have n: "\<forall>c\<in>set (group_chunks (initial_group [1])).
             chunk_name (heap build_extra_first c) \<noteq> Some (env_entryChunkName env_index)"
    by code_simp
  have i: "\<forall>g\<in>set (chunkGroups build_no_initial_group). \<not> isInitial g"
    by code_simp
  from g n have h1: "(\<forall>g\<in>set (chunkGroups build_extra_first). \<not> isInitial g) \<or>
           (\<exists>g. findEntryGroup build_extra_first = Some g \<and>
                (\<forall>c\<in>set (group_chunks g).
                   chunk_name (heap build_extra_first c) \<noteq> Some (env_entryChunkName env_index)))"
    by blast
  from i have h2: "(\<forall>g\<in>set (chunkGroups build_no_initial_group). \<not> isInitial g) \<or>
           (\<exists>g. findEntryGroup build_no_initial_group = Some g \<and>
                (\<forall>c\<in>set (group_chunks g).
                   chunk_name (heap build_no_initial_group c) \<noteq> Some (env_entryChunkName example_env)))"
    by blast
  from missing_entry_chunk_fails_before_mutation[OF h1, of fresh_state "''OutputPlugin''"]
       missing_entry_chunk_fails_before_mutation[OF h2, of fresh_state "''OutputPlugin''"]
  show ?thesis by blast
qed

text \<open>
  Claim C6. Constructing the plugin with a missing or empty \<^verbatim>\<open>platform\<close> throws the
  missing-platform error; with a non-empty \<^verbatim>\<open>platform\<close> it succeeds.
\<close>

theorem constructor_requires_platform:
  "(platform config = None \<or> platform config = Some [] \<longrightarrow>
      constructor config = Inl (Error ''Missing `platform` option in `OutputPlugin`'')) \<and>
   ((\<exists>p. platform config = Some p \<and> p \<noteq> []) \<longrightarrow> constructor config = Inr config)"
  by (auto simp: constructor_def truthy_str_def)

theorem constructor_requires_platform_witness:
  "constructor (config_ios\<lparr>platform := None\<rparr>) =
     Inl (Error ''Missing `platform` option in `OutputPlugin`'') \<and>
   constructor (config_ios\<lparr>platform := Some []\<rparr>) =
     Inl (Error ''Missing `platform` option in `OutputPlugin`'') \<and>
   constructor config_ios = Inr config_ios"
  using constructor_requires_platform[of "config_ios\<lparr>platform := None\<rparr>"]
        constructor_requires_platform[of "config_ios\<lparr>platform := Some []\<rparr>"]
        constructor_requires_platform[of config_ios]
  by (simp add: config_ios_def)

text \<open>
  Claim C7. When the command-line descriptor is absent, or it has the \<^verbatim>\<open>start\<close>
  command, or the development server is enabled, \<^verbatim>\<open>apply\<close> returns and leaves the compiler
  as it was: no hook is tapped. A build on a compiler without taps classifies nothing,
  changes no asset and enqueues nothing.
\<close>

theorem bypass_is_noop:
  assumes "cliOptions = None \<or>
           (\<exists>cli. cliOptions = Some cli \<and> args_has_start (arguments cli)) \<or>
           devServerEnabled config = Some True"
  shows "apply_plugin P config cliOptions compiler = Inr compiler \<and>
         runBuild no_taps compilation = (Inr (), fresh_state, compilation, None)"
proof -
  have "apply_plugin P config cliOptions compiler = Inr compiler"
  proof (cases cliOptions)
    case None
    then show ?thesis by (simp add: apply_plugin_absent)
  next
    case (Some cli)
    with assms have "args_has_start (arguments cli) \<or> devServerEnabled config = Some True"
      by auto
    then show ?thesis
      unfolding Some using apply_plugin_start apply_plugin_devServer by blast
  qed
  then show ?thesis by (simp add: runBuild_no_taps)
qed

theorem bypass_is_noop_witness:
  "apply_plugin example_paths config_ios None no_taps = Inr no_taps \<and>
   apply_plugin example_paths config_ios (Some cli_start) no_taps = Inr no_taps \<and>
   apply_plugin example_paths (config_ios\<lparr>devServerEnabled := Some True\<rparr>) (Some cli_bundle) no_taps
     = Inr no_taps \<and>
   runBuild no_taps build_extra_first = (Inr (), fresh_state, build_extra_first, None)"
proof -
  have a: "args_has_start (arguments cli_start)" by (simp add: cli_start_def)
  have d: "devServerEnabled (config_ios\<lparr>devServerEnabled := Some True\<rparr>) = Some True" by simp
  show ?thesis
    using bypass_is_noop[of None config_ios example_paths no_taps build_extra_first]
        bypass_is_noop[of "Some cli_start" config_ios example_paths no_taps build_extra_first]
        bypass_is_noop[of "Some cli_bundle" "config_ios\<lparr>devServerEnabled := Some True\<rparr>"
                          example_paths no_taps build_extra_first]
        a d
    by blast
qed

text \<open>
  Claim C8. When the entry chunk is found, has a first file and that file is an asset, the
  \<^verbatim>\<open>processAssets\<close> callback succeeds and the compilation changes in that one asset only:
  its new content is the declaration \<^verbatim>\<open>var __CHUNKS__={"local":[...]};\<close> with the
  identities of the local list in order, a line break, and the old content.
\<close>

theorem manifest_injection:
  assumes e: "findEntryChunk env compilation = Some e"
      and files: "chunk_files (heap compilation e) = f # fs"
      and asset: "assets compilation f = Some source"
  shows "\<exists>st'. processAssets env st compilation =
           (Inr (), st',
            compilation\<lparr>assets := (assets compilation)
              (f \<mapsto> ''var __CHUNKS__={'' @ [CHR 0x22] @ ''local'' @ [CHR 0x22] @ '':['' @
                     commas (map json_element (map (chunkIdentity compilation) (st_localChunks st'))) @
                     '']};'' @ [CHR 0x0A] @ source)\<rparr>) \<and>
           (st_localChunks st', st_remoteChunks st') =
             classify env compilation (Some e) (st_localChunks st, st_remoteChunks st)"
proof -
  obtain L R where c: "classify env compilation (Some e) (st_localChunks st, st_remoteChunks st) = (L, R)"
    by (metis surj_pair)
  have ff: "firstFile compilation e = Some f" using files by (simp add: firstFile_def)
  have up: "updateAsset compilation (Some f) g =
      Inr (compilation\<lparr>assets := (assets compilation)(f \<mapsto> g source)\<rparr>)" for g
    using asset by (simp add: updateAsset_def)
  show ?thesis
    by (simp add: processAssets_def Let_def e c ff up chunksDeclaration_def json_local_def)
qed

theorem manifest_injection_witness:
  "assets (snd (snd (processAssets example_env fresh_state build_extra_first))) ''index.bundle'' =
     Some (''var __CHUNKS__={'' @ [CHR 0x22] @ ''local'' @ [CHR 0x22] @ '':['' @
           [CHR 0x22] @ ''main'' @ [CHR 0x22] @ '','' @ [CHR 0x22] @ ''extra'' @ [CHR 0x22] @
           '']};'' @ [CHR 0x0A] @ ''run();'') \<and>
   assets (snd (snd (processAssets example_env fresh_state build_extra_first)))
     ''extra.chunk.bundle'' = Some ''extra();''"
proof -
  have e: "findEntryChunk example_env build_extra_first = Some 1" by code_simp
  have files: "chunk_files (heap build_extra_first 1) = ''index.bundle'' # []" by code_simp
  have asset: "assets build_extra_first ''index.bundle'' = Some ''run();''" by code_simp
  have other: "assets build_extra_first ''extra.chunk.bundle'' = Some ''extra();''" by code_simp
  have cl: "classify example_env build_extra_first (Some 1)
              (st_localChunks fresh_state, st_remoteChunks fresh_state) = ([1, 0], [0])"
    by code_simp
  have js: "commas (map json_element (map (chunkIdentity build_extra_first) [1, 0])) =
            [CHR 0x22] @ ''main'' @ [CHR 0x22] @ '','' @ [CHR 0x22] @ ''extra'' @ [CHR 0x22]"
    by code_simp
  from manifest_injection[OF e files asset, of fresh_state]
  obtain st' where run: "processAssets example_env fresh_state build_extra_first =
           (Inr (), st',
            build_extra_first\<lparr>assets := (assets build_extra_first)
              (''index.bundle'' \<mapsto> ''var __CHUNKS__={'' @ [CHR 0x22] @ ''local'' @ [CHR 0x22] @ '':['' @
                     commas (map json_element (map (chunkIdentity build_extra_first) (st_localChunks st'))) @
                     '']};'' @ [CHR 0x0A] @ ''run();'')\<rparr>)"
    and c: "(st_localChunks st', st_remoteChunks st') =
             classify example_env build_extra_first (Some 1)
               (st_localChunks fresh_state, st_remoteChunks fresh_state)"
    by blast
  from c cl have "st_localChunks st' = [1, 0]" by simp
  with run js other show ?thesis by simp
qed

text \<open>
  Claim C9. With no remote output directory, a chunk of the remote list can still be
  enqueued. In the build \<open>build_dependOn\<close> the entries are \<^verbatim>\<open>main\<close>, \<^verbatim>\<open>feature\<close> and
  \<^verbatim>\<open>shared\<close>, \<^verbatim>\<open>feature\<close> depends on \<^verbatim>\<open>shared\<close>, and the rule makes \<^verbatim>\<open>shared\<close> local. The
  first loop puts \<^verbatim>\<open>feature\<close> into the remote list before \<^verbatim>\<open>shared\<close> records it as shared,
  and the second loop puts it into the local list too. The \<^verbatim>\<open>afterEmit\<close> callback enqueues
  nothing on the remote processor, but it enqueues \<^verbatim>\<open>feature\<close>, a chunk of the remote list,
  on the processor with the local destinations.
\<close>

theorem remote_chunk_enqueued_for_local_distribution:
  "(case apply_plugin example_paths config_shared_local (Some cli_bundle) no_taps of
      Inl err \<Rightarrow> False
    | Inr compiler' \<Rightarrow>
        (case runBuild compiler' build_dependOn of
           (r, st, compilation', ps) \<Rightarrow>
             r = Inr () \<and>
             st_entryChunk st = Some 0 \<and>
             st_localChunks st = [0, 2, 1] \<and>
             st_remoteChunks st = [1] \<and>
             map_option (\<lambda>(localP, remoteP).
                 (queue localP, pc_bundleOutput (proc_config localP),
                  pc_assetsDest (proc_config localP), queue remoteP)) ps =
               Some ([(0, True), (2, False), (1, False)],
                     ''/app/out/main.jsbundle'', ''/app/out'', [])))"
  by code_simp

text \<open>
  Claim C10. When \<^verbatim>\<open>localChunks\<close> is not configured, the matcher is called with an
  empty include list and matches no identity; if moreover the initial closure of no chunk
  of the graph contains another chunk, the remote list is the chunks of the graph other
  than the entry chunk, and the local list is the entry chunk alone.
\<close>

theorem unconfigured_localChunks_all_remote:
  assumes unset: "env_localChunks env = None"
  shows "isLocalChunk env chunkId = matchObject (Many []) chunkId \<and>
         \<not> isLocalChunk env chunkId \<and>
         ((\<forall>c\<in>set (chunks compilation). set (allInitialChunks (heap compilation c)) \<subseteq> {c}) \<longrightarrow>
            st_remoteChunks (processed env compilation) =
              filter (\<lambda>c. findEntryChunk env compilation \<noteq> Some c) (chunks compilation) \<and>
            st_localChunks (processed env compilation) =
              filter (\<lambda>c. findEntryChunk env compilation = Some c) (chunks compilation))"
proof -
  have nm: "\<not> isLocalChunk env chunkId" for chunkId
    using unset by (simp add: isLocalChunk_def matchObject_def)
  have "st_remoteChunks (processed env compilation) =
              filter (\<lambda>c. findEntryChunk env compilation \<noteq> Some c) (chunks compilation) \<and>
            st_localChunks (processed env compilation) =
              filter (\<lambda>c. findEntryChunk env compilation = Some c) (chunks compilation)"
    if "\<forall>c\<in>set (chunks compilation). set (allInitialChunks (heap compilation c)) \<subseteq> {c}"
    using classifyChunks_no_sharing[OF that] nm
    unfolding processed_eq by (simp add: classify_def)
  moreover have "isLocalChunk env chunkId = matchObject (Many []) chunkId"
    using unset by (simp add: isLocalChunk_def)
  ultimately show ?thesis using nm by blast
qed

theorem unconfigured_localChunks_all_remote_witness:
  "\<not> isLocalChunk example_env (Some ''settings'') \<and>
   st_remoteChunks (processed example_env build_separate) = [1, 2] \<and>
   st_localChunks (processed example_env build_separate) = [0]"
proof -
  have u: "env_localChunks example_env = None" by (simp add: example_env_def)
  have n: "\<forall>c\<in>set (chunks build_separate).
             set (allInitialChunks (heap build_separate c)) \<subseteq> {c}" by code_simp
  have r: "filter (\<lambda>c. findEntryChunk example_env build_separate \<noteq> Some c) (chunks build_separate)
           = [1, 2]" by code_simp
  have l: "filter (\<lambda>c. findEntryChunk example_env build_separate = Some c) (chunks build_separate)
           = [0]" by code_simp
  note t = unconfigured_localChunks_all_remote[OF u, of "Some ''settings''" build_separate]
  from t have a: "\<not> isLocalChunk example_env (Some ''settings'')" by blast
  from t n have "st_remoteChunks (processed example_env build_separate) =
      filter (\<lambda>c. findEntryChunk example_env build_separate \<noteq> Some c) (chunks build_separate) \<and>
    st_localChunks (processed example_env build_separate) =
      filter (\<lambda>c. findEntryChunk example_env build_separate = Some c) (chunks build_separate)"
    by blast
  with a show ?thesis unfolding r l by blast
qed

end
